theory Spec2Isabelle
  imports Complex_Main
begin

section \<open>Freshmart: coupon validation, usage ledger, order placement and cart pricing\<close>

text \<open>
  Amounts are JavaScript numbers in the source. They are modelled as exact rationals
  (\<open>rat\<close>): the model agrees with the source wherever the doubles involved are exact
  (integers and the sums, products and comparisons of them that occur below). Points in
  time are milliseconds since the epoch (\<open>int\<close>). Strings are ASCII strings.
\<close>

subsection \<open>JavaScript strings and truthiness\<close>

text \<open>\<open>String.prototype.trim\<close> on ASCII: TAB, LF, VT, FF, CR and SPACE are removed at both ends.\<close>

definition is_js_space :: "char \<Rightarrow> bool" where
  "is_js_space c \<longleftrightarrow> (of_char c :: nat) \<in> {9, 10, 11, 12, 13, 32}"

definition trim :: "string \<Rightarrow> string" where
  "trim s = rev (dropWhile is_js_space (rev (dropWhile is_js_space s)))"

definition lower_char :: "char \<Rightarrow> char" where
  "lower_char c = (let n = (of_char c :: nat) in if 65 \<le> n \<and> n \<le> 90 then char_of (n + 32) else c)"

definition upper_char :: "char \<Rightarrow> char" where
  "upper_char c = (let n = (of_char c :: nat) in if 97 \<le> n \<and> n \<le> 122 then char_of (n - 32) else c)"

definition toLowerCase :: "string \<Rightarrow> string" where
  "toLowerCase s = map lower_char s"

definition toUpperCase :: "string \<Rightarrow> string" where
  "toUpperCase s = map upper_char s"

text \<open>
  A string-valued property that may be \<open>undefined\<close> or \<open>null\<close> is a \<open>string option\<close>.
  In a condition JavaScript treats \<open>undefined\<close>, \<open>null\<close> and the empty string as false:
  \<open>truthy\<close> keeps exactly the values that count as true.
\<close>

definition truthy :: "string option \<Rightarrow> string option" where
  "truthy v = (case v of None \<Rightarrow> None | Some s \<Rightarrow> if s = [] then None else Some s)"

subsection \<open>Documents of the database\<close>

type_synonym uid = string

datatype coupon_type = REGULAR | FIRST_ORDER | SPECIAL_GIFT

record coupon =
  code :: string
  discountAmount :: rat
  expiryDate :: int
  minOrderAmount :: rat
  ctype :: coupon_type
  targetUsername :: "string option"
  giftMessage :: "string option"
  isActive :: bool
  usedBy :: "uid list"

record user_doc =
  user_id :: uid
  user_username :: "string option"
  user_mobileNumber :: "string option"

record product_doc =
  product_id :: string
  stock :: int

record order_item =
  productId :: string
  item_name :: string
  item_price :: rat
  item_quantity :: int

datatype order_id = ORD int

record order_doc =
  orderId :: order_id
  user :: uid
  order_username :: "string option"
  order_mobileNumber :: "string option"
  order_items :: "order_item list"
  totalAmount :: "rat option"
  discountApplied :: rat
  order_deliveryCharge :: rat
  finalAmount :: "rat option"
  order_location :: "rat \<times> rat \<times> string option"
  status :: string
  createdAt :: int

record database =
  coupons :: "coupon list"
  orders :: "order_doc list"
  users :: "user_doc list"
  products :: "product_doc list"

text \<open>The identity the authentication middleware puts into \<open>req.user\<close>.\<close>

record auth_user =
  token_id :: uid
  token_username :: "string option"

subsection \<open>Coupon validation (POST /api/coupons/validate)\<close>

text \<open>
  The filter of \<open>Order.countDocuments\<close>. An order document is stored with the field
  \<open>user\<close> and has no field \<open>userId\<close>. For a filter on a path that is not in the
  schema the object-document mapper either drops the condition (option \<open>strictQuery\<close>
  on: every document matches) or passes it on to the database (option off: no stored
  document has the field, none matches). The schema file is not part of the sources, so
  the option is a parameter.
\<close>

datatype order_filter = Filter_user uid | Filter_userId uid

definition countDocuments :: "bool \<Rightarrow> order_filter \<Rightarrow> order_doc list \<Rightarrow> nat" where
  "countDocuments strictQuery flt os =
     (case flt of
        Filter_user v \<Rightarrow> length (filter (\<lambda>ord. user ord = v) os)
      | Filter_userId v \<Rightarrow> (if strictQuery then length os else 0))"

text \<open>The coupon object of a response; \<open>cj_expiry\<close> is the UTC day of the expiry date.\<close>

record coupon_json =
  cj_code :: string
  cj_discountAmount :: rat
  cj_expiry :: int
  cj_minOrderAmount :: rat
  cj_type :: coupon_type
  cj_targetUsername :: "string option"
  cj_giftMessage :: "string option"

text \<open>
  The reasons of a rejection, in the order of the checks. The messages of the source:
  \<open>InvalidCode\<close> 'Invalid coupon code', \<open>Expired\<close> 'Coupon expired',
  \<open>AlreadyRedeemed\<close> 'You have already redeemed this coupon.',
  \<open>NotYourCoupon\<close> 'This coupon is not available for your account.',
  \<open>BelowMinimum m\<close> 'Order must be at least Rs. m to use this coupon.',
  \<open>FirstOrderOnly\<close> 'This coupon is valid for first order only.'
\<close>

datatype reject = InvalidCode | Expired | AlreadyRedeemed | NotYourCoupon
  | BelowMinimum rat | FirstOrderOnly

datatype validate_result = Valid coupon_json | Invalid reject | ServerError

definition to_json :: "coupon \<Rightarrow> coupon_json" where
  "to_json c = \<lparr>cj_code = code c, cj_discountAmount = discountAmount c,
     cj_expiry = expiryDate c div 86400000, cj_minOrderAmount = minOrderAmount c,
     cj_type = ctype c, cj_targetUsername = targetUsername c,
     cj_giftMessage = giftMessage c\<rparr>"

text \<open>The username of the token, else the one of the user's record (\<open>user?.username\<close>).\<close>

definition resolve_username :: "auth_user \<Rightarrow> user_doc list \<Rightarrow> string option" where
  "resolve_username u us =
     (case truthy (token_username u) of
        Some n \<Rightarrow> Some n
      | None \<Rightarrow> (case find (\<lambda>d. user_id d = token_id u) us of
                   None \<Rightarrow> None
                 | Some d \<Rightarrow> user_username d))"

text \<open>\<open>coupon.usedBy.includes(userId)\<close>: the membership test of the usage ledger.\<close>

definition hasUsed :: "coupon \<Rightarrow> uid \<Rightarrow> bool" where
  "hasUsed c userId \<longleftrightarrow> userId \<in> set (usedBy c)"

text \<open>The targeted-coupon check: true when the request is rejected.\<close>

definition target_mismatch :: "string option \<Rightarrow> string option \<Rightarrow> bool" where
  "target_mismatch target username =
     (case truthy target of
        None \<Rightarrow> False
      | Some t \<Rightarrow> (case truthy username of
                    Some n \<Rightarrow> toLowerCase (trim t) \<noteq> toLowerCase (trim n)
                  | None \<Rightarrow> True))"

definition isSpecialGift :: "coupon \<Rightarrow> bool" where
  "isSpecialGift c \<longleftrightarrow> truthy (targetUsername c) \<noteq> None \<or> ctype c = SPECIAL_GIFT"

text \<open>
  The handler, with the filter of the first-order count as a parameter: the request body
  holds \<open>code\<close> (absent: \<open>code.toUpperCase()\<close> throws and the handler answers with
  status 500) and \<open>orderTotal\<close>.
\<close>

definition validate_coupon_with ::
  "(uid \<Rightarrow> order_filter) \<Rightarrow> bool \<Rightarrow> int \<Rightarrow> database \<Rightarrow> auth_user \<Rightarrow> string option \<Rightarrow> rat
     \<Rightarrow> validate_result" where
  "validate_coupon_with flt strictQuery now db u body_code orderTotal =
     (let userId = token_id u; username = resolve_username u (users db) in
      case body_code of
        None \<Rightarrow> ServerError
      | Some cd \<Rightarrow>
         (case find (\<lambda>c. code c = toUpperCase cd \<and> isActive c) (coupons db) of
            None \<Rightarrow> Invalid InvalidCode
          | Some c \<Rightarrow>
              if expiryDate c < now then Invalid Expired
              else if truthy username \<noteq> None \<and> hasUsed c userId then Invalid AlreadyRedeemed
              else if target_mismatch (targetUsername c) username then Invalid NotYourCoupon
              else if \<not> isSpecialGift c \<and> minOrderAmount c \<noteq> 0 \<and> orderTotal < minOrderAmount c
                then Invalid (BelowMinimum (minOrderAmount c))
              else if ctype c = FIRST_ORDER \<and> 0 < countDocuments strictQuery (flt userId) (orders db)
                then Invalid FirstOrderOnly
              else Valid (to_json c)))"

text \<open>The handler of the server with CSRF protection counts with the filter \<open>{ userId }\<close>.\<close>

definition validate_coupon ::
  "bool \<Rightarrow> int \<Rightarrow> database \<Rightarrow> auth_user \<Rightarrow> string option \<Rightarrow> rat \<Rightarrow> validate_result" where
  "validate_coupon = validate_coupon_with Filter_userId"

text \<open>The handler of the server with socket notifications counts with \<open>{ user: userId }\<close>.\<close>

definition validate_coupon_socket ::
  "bool \<Rightarrow> int \<Rightarrow> database \<Rightarrow> auth_user \<Rightarrow> string option \<Rightarrow> rat \<Rightarrow> validate_result" where
  "validate_coupon_socket = validate_coupon_with Filter_user"

subsection \<open>The usage ledger\<close>

text \<open>The update operator \<open>$addToSet\<close> on an array field.\<close>

definition addToSet :: "'a \<Rightarrow> 'a list \<Rightarrow> 'a list" where
  "addToSet x xs = (if x \<in> set xs then xs else xs @ [x])"

text \<open>
  The ledger operation of the order handler,
  \<open>Coupon.updateMany({ code: { $in: couponCodes } }, { $addToSet: { usedBy: userId } })\<close>:
  every coupon whose code is one of \<open>couponCodes\<close> gets the user into its \<open>usedBy\<close>.
\<close>

definition markUsed :: "string list \<Rightarrow> uid \<Rightarrow> coupon list \<Rightarrow> coupon list" where
  "markUsed couponCodes userId cs =
     map (\<lambda>c. if code c \<in> set couponCodes then c\<lparr>usedBy := addToSet userId (usedBy c)\<rparr> else c) cs"

subsection \<open>Order placement (POST /api/orders)\<close>

record req_item =
  req_id :: string
  req_name :: string
  req_price :: rat
  req_quantity :: int

text \<open>
  The body of the request. \<open>req_total\<close> and \<open>req_finalTotal\<close> are the totals the client
  computed; optional members are \<open>None\<close> when absent.
\<close>

record order_request =
  req_items :: "req_item list"
  req_total :: "rat option"
  req_discount :: "rat option"
  req_couponCodes :: "string list option"
  req_deliveryCharge :: "rat option"
  req_finalTotal :: "rat option"
  req_location :: "rat \<times> rat \<times> string option"
  req_mobileNumber :: "string option"
  req_username :: "string option"

datatype order_error = ValidationError | TransactionAborted

text \<open>\<open>items.reduce((sum, item) => sum + (item.price * item.quantity), 0)\<close>\<close>

definition calculatedTotal :: "req_item list \<Rightarrow> rat" where
  "calculatedTotal its = foldl (\<lambda>sum item. sum + req_price item * of_int (req_quantity item)) 0 its"

text \<open>\<open>discount || 0\<close>, \<open>deliveryCharge || 0\<close>\<close>

definition or_zero :: "rat option \<Rightarrow> rat" where
  "or_zero v = (case v of None \<Rightarrow> 0 | Some d \<Rightarrow> d)"

text \<open>\<open>s.replace(pat, '')\<close> with a string pattern: the first occurrence is removed.\<close>

fun remove_first :: "string \<Rightarrow> string \<Rightarrow> string" where
  "remove_first pat [] = []"
| "remove_first pat (c # cs) =
     (if take (length pat) (c # cs) = pat then drop (length pat) (c # cs)
      else c # remove_first pat cs)"

definition to_order_items :: "req_item list \<Rightarrow> order_item list" where
  "to_order_items its =
     map (\<lambda>i. \<lparr>productId = req_id i, item_name = req_name i, item_price = req_price i,
                item_quantity = req_quantity i\<rparr>) its"

text \<open>The loop \<open>Product.findByIdAndUpdate(item.id, { $inc: { stock: -item.quantity } })\<close>.\<close>

definition decrement_stock :: "req_item list \<Rightarrow> product_doc list \<Rightarrow> product_doc list" where
  "decrement_stock its ps =
     foldl (\<lambda>acc item. map (\<lambda>p. if product_id p = req_id item
                                   then p\<lparr>stock := stock p - req_quantity item\<rparr> else p) acc)
       ps its"

definition update_mobile :: "uid \<Rightarrow> string option \<Rightarrow> user_doc list \<Rightarrow> user_doc list" where
  "update_mobile userId mobile us =
     (case truthy mobile of
        None \<Rightarrow> us
      | Some m \<Rightarrow> map (\<lambda>d. if user_id d = userId
                            then d\<lparr>user_mobileNumber := Some (remove_first ''+977-'' m)\<rparr> else d) us)"

text \<open>
  The handler of the servers that validate the body against \<open>orderSchema\<close>: a quantity
  below 1 is rejected with status 400 before the handler runs, and members of the body
  that the schema does not name (\<open>total\<close>, \<open>finalTotal\<close>) are dropped. Everything after
  that runs in one transaction; \<open>fault\<close> stands for an error thrown by the database
  driver, which aborts the transaction and leaves the database as it was. The result is
  the persisted order and the new database.
\<close>

definition place_order ::
  "bool \<Rightarrow> int \<Rightarrow> auth_user \<Rightarrow> order_request \<Rightarrow> database \<Rightarrow> order_error + (order_doc \<times> database)" where
  "place_order fault now u req db =
     (if list_ex (\<lambda>i. req_quantity i < 1) (req_items req) then Inl ValidationError
      else if fault then Inl TransactionAborted
      else
        let validDiscount = or_zero (req_discount req);
            validDelivery = or_zero (req_deliveryCharge req);
            calculatedFinal = calculatedTotal (req_items req) - validDiscount + validDelivery;
            cs = (case req_couponCodes req of
                    None \<Rightarrow> coupons db
                  | Some cds \<Rightarrow> if 0 < length cds then markUsed cds (token_id u) (coupons db)
                               else coupons db);
            ord = \<lparr>orderId = ORD now, user = token_id u,
                   order_username = (case truthy (req_username req) of
                                       Some n \<Rightarrow> Some n | None \<Rightarrow> token_username u),
                   order_mobileNumber = req_mobileNumber req,
                   order_items = to_order_items (req_items req),
                   totalAmount = Some (calculatedTotal (req_items req)),
                   discountApplied = validDiscount,
                   order_deliveryCharge = validDelivery,
                   finalAmount = Some calculatedFinal,
                   order_location = req_location req,
                   status = ''Pending'', createdAt = now\<rparr>
        in Inr (ord, db\<lparr>coupons := cs, orders := orders db @ [ord],
                        users := update_mobile (token_id u) (req_mobileNumber req) (users db),
                        products := decrement_stock (req_items req) (products db)\<rparr>))"

text \<open>
  The handler of the server without request validation: it stores the client's \<open>total\<close>
  and \<open>finalTotal\<close> and does not touch the coupons.
\<close>

definition place_order_legacy ::
  "bool \<Rightarrow> int \<Rightarrow> auth_user \<Rightarrow> order_request \<Rightarrow> database \<Rightarrow> order_error + (order_doc \<times> database)" where
  "place_order_legacy fault now u req db =
     (if fault then Inl TransactionAborted
      else
        let ord = \<lparr>orderId = ORD now, user = token_id u,
                   order_username = req_username req,
                   order_mobileNumber = req_mobileNumber req,
                   order_items = to_order_items (req_items req),
                   totalAmount = req_total req,
                   discountApplied = or_zero (req_discount req),
                   order_deliveryCharge = or_zero (req_deliveryCharge req),
                   finalAmount = req_finalTotal req,
                   order_location = req_location req,
                   status = ''Pending'', createdAt = now\<rparr>
        in Inr (ord, db\<lparr>orders := orders db @ [ord],
                        users := update_mobile (token_id u) (req_mobileNumber req) (users db),
                        products := decrement_stock (req_items req) (products db)\<rparr>))"

subsection \<open>The cart page: totals\<close>

record bulk_rule =
  qty :: nat
  bulk_price :: rat

record cart_item =
  cart_id :: string
  price :: rat
  quantity :: nat
  item_stock :: nat
  bulkRule :: "bulk_rule option"

text \<open>\<open>sub += item.price * item.quantity\<close> over the cart.\<close>

definition subtotal :: "cart_item list \<Rightarrow> rat" where
  "subtotal c = foldl (\<lambda>sub item. sub + price item * of_nat (quantity item)) 0 c"

text \<open>
  What one line adds to \<open>bDisc\<close>. With a bulk quantity of 0 the source divides by zero
  and the sum becomes \<open>NaN\<close>: that is the value \<open>None\<close>.
\<close>

definition line_bulk_discount :: "cart_item \<Rightarrow> rat option" where
  "line_bulk_discount item =
     (case bulkRule item of
        None \<Rightarrow> Some 0
      | Some r \<Rightarrow>
          if qty r = 0 then None
          else
            let bundles = quantity item div qty r;
                remainder = quantity item mod qty r;
                regularCost = of_nat (quantity item) * price item;
                bulkCost = of_nat bundles * bulk_price r + of_nat remainder * price item
            in Some (regularCost - bulkCost))"

definition sum_bulk_discount :: "cart_item list \<Rightarrow> rat option" where
  "sum_bulk_discount c =
     foldl (\<lambda>bDisc item. case bDisc of
                             None \<Rightarrow> None
                           | Some b \<Rightarrow> map_option (\<lambda>d. b + d) (line_bulk_discount item))
       (Some 0) c"

text \<open>
  \<open>Number(x.toFixed(2))\<close>: the nearest multiple of 1/100, a tie going away from zero
  (on the exact value of \<open>x\<close>).
\<close>

definition toFixed2 :: "rat \<Rightarrow> rat" where
  "toFixed2 x = (if x < 0 then - (of_int \<lfloor>- x * 100 + 1 / 2\<rfloor> / 100)
                 else of_int \<lfloor>x * 100 + 1 / 2\<rfloor> / 100)"

definition bulkDiscount :: "cart_item list \<Rightarrow> rat option" where
  "bulkDiscount c = map_option toFixed2 (sum_bulk_discount c)"

definition netAmount :: "cart_item list \<Rightarrow> rat option" where
  "netAmount c = map_option (\<lambda>bDisc. subtotal c - bDisc) (bulkDiscount c)"

text \<open>The delivery charge of a net amount; every comparison with \<open>NaN\<close> is false.\<close>

definition deliveryCharge :: "rat option \<Rightarrow> rat" where
  "deliveryCharge net =
     (case net of
        None \<Rightarrow> 50
      | Some n \<Rightarrow> if n > 3000 then 0 else if n \<ge> 1000 then 25 else 50)"

record applied_coupon =
  ac_code :: string
  discount :: rat

definition totalCouponDiscount :: "applied_coupon list \<Rightarrow> rat" where
  "totalCouponDiscount acs = foldl (\<lambda>sum c. sum + discount c) 0 acs"

definition order_total :: "cart_item list \<Rightarrow> applied_coupon list \<Rightarrow> rat option" where
  "order_total c acs =
     map_option (\<lambda>n. n - totalCouponDiscount acs + deliveryCharge (netAmount c)) (netAmount c)"

subsection \<open>The cart page: coupons\<close>

record tier =
  tier_code :: string
  threshold :: rat
  tier_name :: string

definition TIERED_COUPONS :: "tier list" where
  "TIERED_COUPONS =
     [\<lparr>tier_code = ''NEPAL100'', threshold = 8000, tier_name = ''Nepal Special''\<rparr>,
      \<lparr>tier_code = ''ABOVE2500'', threshold = 2500, tier_name = ''Bulk Discount''\<rparr>,
      \<lparr>tier_code = ''ABOVE2000'', threshold = 2000, tier_name = ''Bulk Discount''\<rparr>]"

text \<open>\<open>TIERED_COUPONS.some(tc => tc.code === c)\<close>\<close>

definition is_tier_code :: "string \<Rightarrow> bool" where
  "is_tier_code c \<longleftrightarrow> list_ex (\<lambda>tc. tier_code tc = c) TIERED_COUPONS"

text \<open>
  What the page shows for \<open>couponError\<close>: nothing (the empty string), that the code is
  already applied, or the reason the server gave.
\<close>

datatype cart_error = AlreadyApplied string | Rejected reject

text \<open>
  The state of the page: the cart, the coupon catalogue and the user's name come from the
  store, \<open>autoApply_code\<close> from the navigation state, the rest is the component's own.
\<close>

record cart_page =
  cart :: "cart_item list"
  store_coupons :: "coupon_json list"
  store_username :: "string option"
  autoApply_code :: "string option"
  couponCode :: string
  appliedCoupons :: "applied_coupon list"
  couponError :: "cart_error option"
  autoApplied :: bool
  autoApplyMessage :: string
  hasPlacedOrder :: bool
  usedSpecialCoupons :: "string list"

definition to_applied :: "coupon_json \<Rightarrow> applied_coupon" where
  "to_applied cj = \<lparr>ac_code = cj_code cj, discount = cj_discountAmount cj\<rparr>"

text \<open>The catalogue entry of a code that is a gift for the user of the page.\<close>

definition is_gift_for :: "string option \<Rightarrow> string \<Rightarrow> coupon_json \<Rightarrow> bool" where
  "is_gift_for username cd c \<longleftrightarrow>
     cj_code c = cd \<and>
     (case truthy (cj_targetUsername c) of
        None \<Rightarrow> False
      | Some t \<Rightarrow> (case truthy username of
                    None \<Rightarrow> False
                  | Some n \<Rightarrow> toLowerCase (trim t) = toLowerCase (trim n)))"

text \<open>
  \<open>validate\<close> is the answer of the validation endpoint to a code and an order total. The
  request helper throws on a response with an error status: the handler then ends without
  a change of state. \<open>handleApplyCoupon\<close> is the run of the handler in which the answer
  arrives before anything else changes the state.
\<close>

definition handleApplyCoupon ::
  "(string \<Rightarrow> rat \<Rightarrow> validate_result) \<Rightarrow> string option \<Rightarrow> cart_page \<Rightarrow> cart_page" where
  "handleApplyCoupon validate codeOverride st =
     (let codeToValidate = (case truthy codeOverride of Some c \<Rightarrow> c | None \<Rightarrow> couponCode st) in
      if codeToValidate = [] then st
      else if list_ex (\<lambda>c. ac_code c = codeToValidate) (appliedCoupons st)
        then st\<lparr>couponError := Some (AlreadyApplied codeToValidate)\<rparr>
      else
        (case validate codeToValidate (subtotal (cart st)) of
           Valid cj \<Rightarrow>
             st\<lparr>appliedCoupons := appliedCoupons st @ [to_applied cj],
                couponError := None,
                couponCode := [],
                usedSpecialCoupons :=
                  (if find (is_gift_for (store_username st) (cj_code cj)) (store_coupons st) \<noteq> None
                      \<and> cj_code cj \<notin> set (usedSpecialCoupons st)
                   then usedSpecialCoupons st @ [cj_code cj] else usedSpecialCoupons st)\<rparr>
         | Invalid r \<Rightarrow> st\<lparr>couponError := Some (Rejected r)\<rparr>
         | ServerError \<Rightarrow> st))"

definition handleRemoveCoupon :: "string \<Rightarrow> cart_page \<Rightarrow> cart_page" where
  "handleRemoveCoupon codeToRemove st =
     (let st' = st\<lparr>appliedCoupons := filter (\<lambda>c. ac_code c \<noteq> codeToRemove) (appliedCoupons st)\<rparr>;
          st'' = (if is_tier_code codeToRemove \<or> codeToRemove = ''AUTO50''
                  then st'\<lparr>autoApplied := False, autoApplyMessage := []\<rparr> else st')
      in st''\<lparr>couponError := None\<rparr>)"

definition handleClearAllCoupons :: "cart_page \<Rightarrow> cart_page" where
  "handleClearAllCoupons st =
     st\<lparr>appliedCoupons := [], autoApplied := False, autoApplyMessage := [], couponError := None\<rparr>"

text \<open>
  The answer to the request of \<open>handleApplyCoupon\<close> is handled when it arrives.
  \<open>snap\<close> is the state of the render that created the handler (the catalogue, the
  user's name and \<open>usedSpecialCoupons\<close> are read from it), \<open>st\<close> the state at the
  time of the answer, which the functional updates extend.
\<close>

definition apply_response :: "cart_page \<Rightarrow> validate_result \<Rightarrow> cart_page \<Rightarrow> cart_page" where
  "apply_response snap result st =
     (case result of
        Valid cj \<Rightarrow>
          st\<lparr>appliedCoupons := appliedCoupons st @ [to_applied cj],
             couponError := None,
             couponCode := [],
             usedSpecialCoupons :=
               (if find (is_gift_for (store_username snap) (cj_code cj)) (store_coupons snap) \<noteq> None
                   \<and> cj_code cj \<notin> set (usedSpecialCoupons snap)
                then usedSpecialCoupons st @ [cj_code cj] else usedSpecialCoupons st)\<rparr>
      | Invalid r \<Rightarrow> st\<lparr>couponError := Some (Rejected r)\<rparr>
      | ServerError \<Rightarrow> st)"

text \<open>
  The automatic pass \<open>checkAutoApply\<close> of the effect. Every condition of the pass reads
  the render in which the effect was set up, the state \<open>snap\<close>: its applied coupons, the
  subtotal of its cart, its catalogue, \<open>hasPlacedOrder\<close> and the navigation state. Every
  state update of the pass is a function of the state at the time the update is made,
  the state \<open>st\<close>, which differs from \<open>snap\<close> when an earlier update of the pass or
  anything else has changed the state in between.

  Step 1 calls \<open>handleApplyCoupon(location.state.autoApply)\<close> and does not await it:
  the pass only sends that request and goes on. \<open>navigation_apply\<close> is the code of the
  request, sent with the subtotal of \<open>snap\<close>; its answer is handled by
  \<open>apply_response snap\<close> on the state at its arrival, before, between or after the
  updates of the pass.
\<close>

definition navigation_apply :: "cart_page \<Rightarrow> string option" where
  "navigation_apply snap =
     (case truthy (autoApply_code snap) of
        None \<Rightarrow> None
      | Some cd \<Rightarrow> if list_ex (\<lambda>c. ac_code c = cd) (appliedCoupons snap) then None else Some cd)"

text \<open>
  Step 2, first order: the update made on the answer of the server; \<open>None\<close> when the
  request throws, which ends the pass.
\<close>

definition first_order_step ::
  "(string \<Rightarrow> rat \<Rightarrow> validate_result) \<Rightarrow> cart_page \<Rightarrow> cart_page \<Rightarrow> cart_page option" where
  "first_order_step validate snap st =
     (if hasPlacedOrder snap then Some st
      else
        (case find (\<lambda>c. cj_type c = FIRST_ORDER) (store_coupons snap) of
           None \<Rightarrow> Some st
         | Some firstOrderCoupon \<Rightarrow>
             if list_ex (\<lambda>c. ac_code c = cj_code firstOrderCoupon) (appliedCoupons snap)
             then Some st
             else
               (case validate (cj_code firstOrderCoupon) (subtotal (cart snap)) of
                  Valid cj \<Rightarrow> Some (st\<lparr>appliedCoupons := appliedCoupons st @ [to_applied cj],
                                       couponError := None\<rparr>)
                | Invalid r \<Rightarrow> Some st
                | ServerError \<Rightarrow> None)))"

text \<open>Step 3: \<open>TIERED_COUPONS.find(c => subtotal >= c.threshold)\<close>.\<close>

definition targetTierCoupon :: "rat \<Rightarrow> tier option" where
  "targetTierCoupon sub = find (\<lambda>c. sub \<ge> threshold c) TIERED_COUPONS"

definition activeTierCoupon :: "applied_coupon list \<Rightarrow> applied_coupon option" where
  "activeTierCoupon acs = find (\<lambda>c. is_tier_code (ac_code c)) acs"

definition tier_step ::
  "(string \<Rightarrow> rat \<Rightarrow> validate_result) \<Rightarrow> cart_page \<Rightarrow> cart_page \<Rightarrow> cart_page" where
  "tier_step validate snap st =
     (case targetTierCoupon (subtotal (cart snap)) of
        Some target \<Rightarrow>
          if map_option ac_code (activeTierCoupon (appliedCoupons snap)) \<noteq> Some (tier_code target)
          then
            (case validate (tier_code target) (subtotal (cart snap)) of
               Valid cj \<Rightarrow>
                 st\<lparr>appliedCoupons :=
                       filter (\<lambda>c. \<not> is_tier_code (ac_code c)) (appliedCoupons st) @ [to_applied cj],
                    autoApplied := True,
                    autoApplyMessage := tier_name target @ '' Applied!'',
                    couponError := None\<rparr>
             | Invalid r \<Rightarrow> st
             | ServerError \<Rightarrow> st)
          else st
      | None \<Rightarrow>
          if activeTierCoupon (appliedCoupons snap) \<noteq> None then
            st\<lparr>appliedCoupons := filter (\<lambda>c. \<not> is_tier_code (ac_code c)) (appliedCoupons st),
               autoApplied := False, autoApplyMessage := []\<rparr>
          else st)"

text \<open>
  The run of the awaited steps of a pass set up in the state \<open>st\<close>, when the answers to
  its requests arrive before anything else changes the state: step 3 follows the update
  of step 2.
\<close>

definition checkAutoApply :: "(string \<Rightarrow> rat \<Rightarrow> validate_result) \<Rightarrow> cart_page \<Rightarrow> cart_page" where
  "checkAutoApply validate st =
     (case first_order_step validate st st of
        None \<Rightarrow> st
      | Some st2 \<Rightarrow> tier_step validate st st2)"

text \<open>The effect runs the pass when the cart is not empty.\<close>

definition auto_apply_effect :: "(string \<Rightarrow> rat \<Rightarrow> validate_result) \<Rightarrow> cart_page \<Rightarrow> cart_page" where
  "auto_apply_effect validate st = (if 0 < length (cart st) then checkAutoApply validate st else st)"

subsection \<open>The cart page: the buttons of a cart line\<close>

datatype cart_action = UPDATE_CART_QTY string int | REMOVE_FROM_CART string

text \<open>
  The reducer of the store is not part of the sources: the handlers take it as the
  parameter \<open>dispatch\<close>, a function from an action and a cart to the new cart.
\<close>

definition click_minus ::
  "(cart_action \<Rightarrow> cart_item list \<Rightarrow> cart_item list) \<Rightarrow> cart_item \<Rightarrow> cart_page \<Rightarrow> cart_page" where
  "click_minus dispatch item st =
     handleClearAllCoupons
       (st\<lparr>cart := dispatch (UPDATE_CART_QTY (cart_id item) (int (quantity item) - 1)) (cart st)\<rparr>)"

definition click_plus ::
  "(cart_action \<Rightarrow> cart_item list \<Rightarrow> cart_item list) \<Rightarrow> cart_item \<Rightarrow> cart_page \<Rightarrow> cart_page" where
  "click_plus dispatch item st =
     (let isMaxStock = (quantity item \<ge> item_stock item) in
      if isMaxStock then st
      else st\<lparr>cart := dispatch (UPDATE_CART_QTY (cart_id item) (int (quantity item) + 1)) (cart st)\<rparr>)"

definition click_remove ::
  "(cart_action \<Rightarrow> cart_item list \<Rightarrow> cart_item list) \<Rightarrow> cart_item \<Rightarrow> cart_page \<Rightarrow> cart_page" where
  "click_remove dispatch item st =
     handleClearAllCoupons (st\<lparr>cart := dispatch (REMOVE_FROM_CART (cart_id item)) (cart st)\<rparr>)"

text \<open>
  Modelled from the spec: the reducer of the store context, which is missing from the
  sources. A cart line has a quantity of at least 1; adjusting a quantity replaces it,
  and a line whose quantity would fall below 1, or a removed line, leaves the cart.
\<close>

definition store_reducer :: "cart_action \<Rightarrow> cart_item list \<Rightarrow> cart_item list" where
  "store_reducer a c =
     (case a of
        UPDATE_CART_QTY i q \<Rightarrow>
          if q < 1 then filter (\<lambda>it. cart_id it \<noteq> i) c
          else map (\<lambda>it. if cart_id it = i then it\<lparr>quantity := nat q\<rparr> else it) c
      | REMOVE_FROM_CART i \<Rightarrow> filter (\<lambda>it. cart_id it \<noteq> i) c)"

subsection \<open>A shop for the examples\<close>

definition ex_gift :: coupon where
  "ex_gift = \<lparr>code = ''GIFT10'', discountAmount = 10, expiryDate = 5000, minOrderAmount = 500,
     ctype = REGULAR, targetUsername = Some '' Alice '', giftMessage = Some ''Thank you'',
     isActive = True, usedBy = []\<rparr>"

definition ex_welcome :: coupon where
  "ex_welcome = \<lparr>code = ''WELCOME50'', discountAmount = 50, expiryDate = 5000, minOrderAmount = 0,
     ctype = FIRST_ORDER, targetUsername = None, giftMessage = None,
     isActive = True, usedBy = []\<rparr>"

definition ex_save :: coupon where
  "ex_save = \<lparr>code = ''SAVE20'', discountAmount = 20, expiryDate = 5000, minOrderAmount = 300,
     ctype = REGULAR, targetUsername = None, giftMessage = None,
     isActive = True, usedBy = [''u3'']\<rparr>"

definition ex_tier :: "string \<Rightarrow> rat \<Rightarrow> rat \<Rightarrow> coupon" where
  "ex_tier cd amount minimum = \<lparr>code = cd, discountAmount = amount, expiryDate = 5000,
     minOrderAmount = minimum, ctype = REGULAR, targetUsername = None, giftMessage = None,
     isActive = True, usedBy = []\<rparr>"

definition ex_alice :: auth_user where
  "ex_alice = \<lparr>token_id = ''u1'', token_username = Some ''alice''\<rparr>"

definition ex_bob :: auth_user where
  "ex_bob = \<lparr>token_id = ''u2'', token_username = Some ''bob''\<rparr>"

text \<open>A user whose token and record carry no username.\<close>

definition ex_nameless :: auth_user where
  "ex_nameless = \<lparr>token_id = ''u3'', token_username = None\<rparr>"

definition ex_order :: order_doc where
  "ex_order = \<lparr>orderId = ORD 500, user = ''u2'', order_username = Some ''bob'',
     order_mobileNumber = None,
     order_items = [\<lparr>productId = ''p1'', item_name = ''Rice'', item_price = 10, item_quantity = 2\<rparr>],
     totalAmount = Some 20, discountApplied = 0, order_deliveryCharge = 50,
     finalAmount = Some 70, order_location = (0, 0, None), status = ''Pending'',
     createdAt = 500\<rparr>"

definition ex_db :: database where
  "ex_db = \<lparr>coupons = [ex_gift, ex_welcome, ex_save, ex_tier ''NEPAL100'' 100 8000,
                ex_tier ''ABOVE2500'' 50 2500, ex_tier ''ABOVE2000'' 30 2000],
     orders = [ex_order],
     users = [\<lparr>user_id = ''u1'', user_username = Some ''alice'', user_mobileNumber = None\<rparr>,
              \<lparr>user_id = ''u2'', user_username = Some ''bob'', user_mobileNumber = None\<rparr>,
              \<lparr>user_id = ''u3'', user_username = None, user_mobileNumber = None\<rparr>],
     products = [\<lparr>product_id = ''p1'', stock = 10\<rparr>]\<rparr>"

text \<open>A request whose \<open>total\<close> (1) is not the sum of its items (20).\<close>

definition ex_request :: order_request where
  "ex_request = \<lparr>req_items = [\<lparr>req_id = ''p1'', req_name = ''Rice'', req_price = 10, req_quantity = 2\<rparr>],
     req_total = Some 1, req_discount = None, req_couponCodes = Some [''SAVE20''],
     req_deliveryCharge = Some 50, req_finalTotal = Some 51, req_location = (0, 0, None),
     req_mobileNumber = None, req_username = None\<rparr>"

text \<open>A line whose bundle of 6 costs 100, with a unit price of 20 and of 10.\<close>

definition ex_line :: "rat \<Rightarrow> cart_item" where
  "ex_line p = \<lparr>cart_id = ''p1'', price = p, quantity = 6, item_stock = 10,
     bulkRule = Some \<lparr>qty = 6, bulk_price = 100\<rparr>\<rparr>"

text \<open>A cart with a subtotal of 8100 and a bulk discount of 200.\<close>

definition ex_bulk_cart :: "cart_item list" where
  "ex_bulk_cart = [\<lparr>cart_id = ''p2'', price = 1350, quantity = 6, item_stock = 10,
     bulkRule = Some \<lparr>qty = 6, bulk_price = 7900\<rparr>\<rparr>]"

text \<open>The validation endpoint as the page of the user bob reaches it.\<close>

definition ex_validate :: "string \<Rightarrow> rat \<Rightarrow> validate_result" where
  "ex_validate cd amount = validate_coupon False 1000 ex_db ex_bob (Some cd) amount"

text \<open>The page of bob, who has ordered before, with a cart of 8200 and no coupon.\<close>

definition ex_item :: cart_item where
  "ex_item = \<lparr>cart_id = ''p3'', price = 4100, quantity = 2, item_stock = 10, bulkRule = None\<rparr>"

definition ex_page :: cart_page where
  "ex_page = \<lparr>cart = [ex_item], store_coupons = map to_json (coupons ex_db),
     store_username = Some ''bob'', autoApply_code = None, couponCode = [],
     appliedCoupons = [], couponError = None, autoApplied = False, autoApplyMessage = [],
     hasPlacedOrder = True, usedSpecialCoupons = []\<rparr>"

text \<open>The same page with a cart of 120 and the lowest tier applied.\<close>

definition ex_small_page :: cart_page where
  "ex_small_page = ex_page\<lparr>cart := [ex_line 20],
     appliedCoupons := [\<lparr>ac_code = ''ABOVE2000'', discount = 30\<rparr>]\<rparr>"

section \<open>Properties\<close>

lemmas js_string_simps = toLowerCase_def toUpperCase_def trim_def is_js_space_def
  lower_char_def upper_char_def char_of_def bit_Suc_0_iff

lemmas shop_simps = ex_gift_def ex_welcome_def ex_save_def ex_tier_def ex_alice_def ex_bob_def
  ex_nameless_def ex_order_def ex_db_def

lemmas validate_simps = validate_coupon_def validate_coupon_socket_def validate_coupon_with_def
  resolve_username_def truthy_def hasUsed_def target_mismatch_def isSpecialGift_def
  countDocuments_def to_json_def Let_def

subsection \<open>The usage ledger\<close>

lemma addToSet_idem: "addToSet x (addToSet x xs) = addToSet x xs"
  by (simp add: addToSet_def)

lemma addToSet_member: "x \<in> set (addToSet x xs)"
  by (simp add: addToSet_def)

lemma markUsed_twice: "markUsed cds u (markUsed cds u cs) = markUsed cds u cs"
  by (induction cs) (simp_all add: markUsed_def addToSet_idem)

lemma markUsed_hasUsed:
  "c \<in> set (markUsed cds u cs) \<Longrightarrow> code c \<in> set cds \<Longrightarrow> hasUsed c u"
  by (auto simp: markUsed_def hasUsed_def addToSet_member split: if_splits)

subsection \<open>Coupon validation\<close>

lemma target_mismatch_iff:
  "truthy target = Some t \<Longrightarrow>
   target_mismatch target username \<longleftrightarrow>
     \<not> (\<exists>n. truthy username = Some n \<and> toLowerCase (trim n) = toLowerCase (trim t))"
  by (auto simp: target_mismatch_def split: option.splits)

lemma validate_found:
  assumes "find (\<lambda>c. code c = toUpperCase cd \<and> isActive c) (coupons db) = Some c"
  shows "validate_coupon_with flt sq now db u (Some cd) amount =
    (if expiryDate c < now then Invalid Expired
     else if truthy (resolve_username u (users db)) \<noteq> None \<and> hasUsed c (token_id u)
       then Invalid AlreadyRedeemed
     else if target_mismatch (targetUsername c) (resolve_username u (users db))
       then Invalid NotYourCoupon
     else if \<not> isSpecialGift c \<and> minOrderAmount c \<noteq> 0 \<and> amount < minOrderAmount c
       then Invalid (BelowMinimum (minOrderAmount c))
     else if ctype c = FIRST_ORDER \<and> 0 < countDocuments sq (flt (token_id u)) (orders db)
       then Invalid FirstOrderOnly
     else Valid (to_json c))"
  using assms by (simp add: validate_coupon_with_def Let_def)

text \<open>
  C5. For a coupon with a target username that passes the earlier checks (it is found and
  active, not expired, not yet redeemed by the user) and the later first-order check, the
  request is accepted exactly when the user has a username which, trimmed and in lower
  case, equals the trimmed lower-case target; otherwise the answer is the not-your-coupon
  rejection. Whatever the other checks say, a targeted coupon is only ever accepted for
  such a user. For a targeted coupon or one of type SPECIAL_GIFT the answer does not
  depend on the order total and is never the below-minimum rejection.
\<close>

theorem targeted_coupon_check:
  assumes found: "find (\<lambda>c. code c = toUpperCase cd \<and> isActive c) (coupons db) = Some c"
  shows "(truthy (targetUsername c) \<noteq> None \<or> ctype c = SPECIAL_GIFT \<longrightarrow>
            validate_coupon sq now db u (Some cd) amount = validate_coupon sq now db u (Some cd) amount'
            \<and> (\<forall>m. validate_coupon sq now db u (Some cd) amount \<noteq> Invalid (BelowMinimum m)))
       \<and> (\<forall>t. truthy (targetUsername c) = Some t \<and> \<not> expiryDate c < now
               \<and> \<not> hasUsed c (token_id u)
               \<and> (ctype c = FIRST_ORDER \<longrightarrow>
                    countDocuments sq (Filter_userId (token_id u)) (orders db) = 0) \<longrightarrow>
             validate_coupon sq now db u (Some cd) amount =
               (if \<exists>n. truthy (resolve_username u (users db)) = Some n
                       \<and> toLowerCase (trim n) = toLowerCase (trim t)
                then Valid (to_json c) else Invalid NotYourCoupon))
       \<and> (\<forall>t j. truthy (targetUsername c) = Some t
               \<and> validate_coupon sq now db u (Some cd) amount = Valid j \<longrightarrow>
             (\<exists>n. truthy (resolve_username u (users db)) = Some n
                  \<and> toLowerCase (trim n) = toLowerCase (trim t)))"
proof (intro conjI impI allI)
  assume "truthy (targetUsername c) \<noteq> None \<or> ctype c = SPECIAL_GIFT"
  then have sg: "isSpecialGift c"
    by (simp add: isSpecialGift_def)
  show "validate_coupon sq now db u (Some cd) amount = validate_coupon sq now db u (Some cd) amount'"
    using sg by (simp add: validate_coupon_def validate_found [OF found])
  fix m
  show "validate_coupon sq now db u (Some cd) amount \<noteq> Invalid (BelowMinimum m)"
    using sg by (simp add: validate_coupon_def validate_found [OF found])
next
  fix t
  assume h: "truthy (targetUsername c) = Some t \<and> \<not> expiryDate c < now
               \<and> \<not> hasUsed c (token_id u)
               \<and> (ctype c = FIRST_ORDER \<longrightarrow>
                    countDocuments sq (Filter_userId (token_id u)) (orders db) = 0)"
  then have sg: "isSpecialGift c"
    by (simp add: isSpecialGift_def)
  from h have tm: "target_mismatch (targetUsername c) (resolve_username u (users db)) \<longleftrightarrow>
     \<not> (\<exists>n. truthy (resolve_username u (users db)) = Some n
            \<and> toLowerCase (trim n) = toLowerCase (trim t))"
    by (simp add: target_mismatch_iff)
  show "validate_coupon sq now db u (Some cd) amount =
               (if \<exists>n. truthy (resolve_username u (users db)) = Some n
                       \<and> toLowerCase (trim n) = toLowerCase (trim t)
                then Valid (to_json c) else Invalid NotYourCoupon)"
    using h sg tm by (auto simp: validate_coupon_def validate_found [OF found])
next
  fix t j
  assume h: "truthy (targetUsername c) = Some t
               \<and> validate_coupon sq now db u (Some cd) amount = Valid j"
  then have "\<not> target_mismatch (targetUsername c) (resolve_username u (users db))"
    by (auto simp: validate_coupon_def validate_found [OF found] split: if_splits)
  with h show "\<exists>n. truthy (resolve_username u (users db)) = Some n
                  \<and> toLowerCase (trim n) = toLowerCase (trim t)"
    by (simp add: target_mismatch_iff)
qed

lemma ex_find_gift:
  "find (\<lambda>c. code c = toUpperCase ''gift10'' \<and> isActive c) (coupons ex_db) = Some ex_gift"
  by (simp add: shop_simps js_string_simps)

theorem targeted_coupon_check_witness:
  "validate_coupon False 1000 ex_db ex_alice (Some ''gift10'') 0 = Valid (to_json ex_gift)
   \<and> validate_coupon False 1000 ex_db ex_bob (Some ''gift10'') 9999 = Invalid NotYourCoupon
   \<and> minOrderAmount ex_gift = 500"
proof -
  have alice: "\<exists>n. truthy (resolve_username ex_alice (users ex_db)) = Some n
       \<and> toLowerCase (trim n) = toLowerCase (trim '' Alice '')"
    by (simp add: shop_simps resolve_username_def truthy_def js_string_simps)
  have bob: "\<not> (\<exists>n. truthy (resolve_username ex_bob (users ex_db)) = Some n
       \<and> toLowerCase (trim n) = toLowerCase (trim '' Alice ''))"
    by (simp add: shop_simps resolve_username_def truthy_def js_string_simps)
  have t: "truthy (targetUsername ex_gift) = Some '' Alice ''"
    by (simp add: ex_gift_def truthy_def)
  have pre: "\<not> expiryDate ex_gift < 1000" "\<not> hasUsed ex_gift u" "ctype ex_gift \<noteq> FIRST_ORDER" for u
    by (simp_all add: ex_gift_def hasUsed_def)
  from targeted_coupon_check [OF ex_find_gift, of False 1000 ex_alice 0 0]
  have "validate_coupon False 1000 ex_db ex_alice (Some ''gift10'') 0 = Valid (to_json ex_gift)"
    using alice t pre by simp
  moreover from targeted_coupon_check [OF ex_find_gift, of False 1000 ex_bob 9999 9999]
  have "validate_coupon False 1000 ex_db ex_bob (Some ''gift10'') 9999 = Invalid NotYourCoupon"
    using bob t pre by simp
  ultimately show ?thesis
    by (simp add: ex_gift_def)
qed

text \<open>
  C10. When the username of the requesting user cannot be resolved (it is absent or empty
  in the token and in the user's record), the answer is never the already-redeemed
  rejection, and a user who is in the \<open>usedBy\<close> set of an untargeted coupon that passes
  the remaining checks (found and active, not expired, minimum order, first order) is
  told that the coupon is valid.
\<close>

theorem unresolved_username_skips_redeemed_check:
  assumes unresolved: "truthy (resolve_username u (users db)) = None"
  shows "validate_coupon sq now db u body_code amount \<noteq> Invalid AlreadyRedeemed
     \<and> (\<forall>cd c. body_code = Some cd
           \<and> find (\<lambda>c. code c = toUpperCase cd \<and> isActive c) (coupons db) = Some c
           \<and> hasUsed c (token_id u)
           \<and> \<not> expiryDate c < now
           \<and> truthy (targetUsername c) = None
           \<and> (ctype c = SPECIAL_GIFT \<or> minOrderAmount c = 0 \<or> minOrderAmount c \<le> amount)
           \<and> (ctype c = FIRST_ORDER \<longrightarrow>
                 countDocuments sq (Filter_userId (token_id u)) (orders db) = 0)
         \<longrightarrow> validate_coupon sq now db u body_code amount = Valid (to_json c))"
proof (intro conjI allI impI)
  show "validate_coupon sq now db u body_code amount \<noteq> Invalid AlreadyRedeemed"
    using unresolved
    by (simp add: validate_coupon_def validate_coupon_with_def Let_def split: option.splits)
next
  fix cd c
  assume h: "body_code = Some cd
           \<and> find (\<lambda>c. code c = toUpperCase cd \<and> isActive c) (coupons db) = Some c
           \<and> hasUsed c (token_id u)
           \<and> \<not> expiryDate c < now
           \<and> truthy (targetUsername c) = None
           \<and> (ctype c = SPECIAL_GIFT \<or> minOrderAmount c = 0 \<or> minOrderAmount c \<le> amount)
           \<and> (ctype c = FIRST_ORDER \<longrightarrow>
                 countDocuments sq (Filter_userId (token_id u)) (orders db) = 0)"
  then have found: "find (\<lambda>c. code c = toUpperCase cd \<and> isActive c) (coupons db) = Some c"
    by simp
  from h have "\<not> target_mismatch (targetUsername c) (resolve_username u (users db))"
    by (simp add: target_mismatch_def)
  with h unresolved show "validate_coupon sq now db u body_code amount = Valid (to_json c)"
    by (auto simp: validate_coupon_def validate_found [OF found] isSpecialGift_def)
qed

theorem unresolved_username_skips_redeemed_check_witness:
  "truthy (resolve_username ex_nameless (users ex_db)) = None
   \<and> hasUsed ex_save (token_id ex_nameless)
   \<and> validate_coupon False 1000 ex_db ex_nameless (Some ''save20'') 400 = Valid (to_json ex_save)"
proof -
  have un: "truthy (resolve_username ex_nameless (users ex_db)) = None"
    by (simp add: shop_simps resolve_username_def truthy_def)
  have found: "find (\<lambda>c. code c = toUpperCase ''save20'' \<and> isActive c) (coupons ex_db) = Some ex_save"
    by (simp add: shop_simps js_string_simps)
  have pre: "hasUsed ex_save (token_id ex_nameless)" "\<not> expiryDate ex_save < 1000"
    "truthy (targetUsername ex_save) = None" "minOrderAmount ex_save \<le> 400"
    "ctype ex_save \<noteq> FIRST_ORDER"
    by (simp_all add: ex_save_def ex_nameless_def hasUsed_def truthy_def)
  from unresolved_username_skips_redeemed_check [OF un, of False 1000 "Some ''save20''" 400]
  have "validate_coupon False 1000 ex_db ex_nameless (Some ''save20'') 400 = Valid (to_json ex_save)"
    using found pre by simp
  with un pre show ?thesis
    by simp
qed

text \<open>
  With a resolved username the same request is rejected: the membership test decides.
\<close>

lemma resolved_username_redeemed:
  assumes "find (\<lambda>c. code c = toUpperCase cd \<and> isActive c) (coupons db) = Some c"
    and "\<not> expiryDate c < now" and "hasUsed c (token_id u)"
    and "truthy (resolve_username u (users db)) \<noteq> None"
  shows "validate_coupon sq now db u (Some cd) amount = Invalid AlreadyRedeemed"
  using assms(2-) by (simp add: validate_coupon_def validate_found [OF assms(1)])

text \<open>
  C6. The handler counts the orders that match the filter \<open>{ userId }\<close>, a path no order
  has. With non-strict queries the count is 0 and the first-order rejection is never
  given; with strict queries every order of the shop is counted. The user bob, who has
  placed an order, is told that the first-order coupon is valid; the handler that filters
  on \<open>user\<close> rejects the same request. Under strict queries alice, who has no order,
  is rejected.
\<close>

theorem first_order_check_counts_wrong_field:
  "countDocuments False (Filter_user (token_id ex_bob)) (orders ex_db) = 1
   \<and> validate_coupon False 1000 ex_db ex_bob (Some ''WELCOME50'') 100 = Valid (to_json ex_welcome)
   \<and> validate_coupon_socket False 1000 ex_db ex_bob (Some ''WELCOME50'') 100 = Invalid FirstOrderOnly
   \<and> countDocuments True (Filter_user (token_id ex_alice)) (orders ex_db) = 0
   \<and> validate_coupon True 1000 ex_db ex_alice (Some ''WELCOME50'') 100 = Invalid FirstOrderOnly"
proof -
  have found: "find (\<lambda>c. code c = toUpperCase ''WELCOME50'' \<and> isActive c) (coupons ex_db) = Some ex_welcome"
    by (simp add: shop_simps js_string_simps)
  have names: "truthy (resolve_username ex_bob (users ex_db)) = Some ''bob''"
      "truthy (resolve_username ex_alice (users ex_db)) = Some ''alice''"
    by (simp_all add: shop_simps resolve_username_def truthy_def)
  have c: "\<not> expiryDate ex_welcome < 1000" "\<not> hasUsed ex_welcome v"
      "\<not> target_mismatch (targetUsername ex_welcome) w" "minOrderAmount ex_welcome = 0"
      "ctype ex_welcome = FIRST_ORDER" for v w
    by (simp_all add: ex_welcome_def hasUsed_def target_mismatch_def truthy_def)
  have n: "countDocuments False (Filter_user (token_id ex_bob)) (orders ex_db) = 1"
      "countDocuments False (Filter_userId (token_id ex_bob)) (orders ex_db) = 0"
      "countDocuments True (Filter_user (token_id ex_alice)) (orders ex_db) = 0"
      "countDocuments True (Filter_userId (token_id ex_alice)) (orders ex_db) = 1"
    by (simp_all add: countDocuments_def shop_simps)
  show ?thesis
    using c n by (simp add: validate_coupon_def validate_coupon_socket_def validate_found [OF found])
qed

lemma first_order_never_rejected:
  "validate_coupon False now db u body_code amount \<noteq> Invalid FirstOrderOnly"
  by (simp add: validate_coupon_def validate_coupon_with_def Let_def countDocuments_def
      split: option.splits)

lemma first_order_socket:
  assumes "find (\<lambda>c. code c = toUpperCase cd \<and> isActive c) (coupons db) = Some c"
    and "ctype c = FIRST_ORDER"
    and "validate_coupon_socket sq now db u (Some cd) amount = Valid j"
  shows "\<forall>ord \<in> set (orders db). user ord \<noteq> token_id u"
  using assms(2-)
  by (auto simp: validate_coupon_socket_def validate_found [OF assms(1)] countDocuments_def
      filter_empty_conv split: if_splits)

subsection \<open>Order placement\<close>

lemma foldl_add_sum_list:
  "foldl (\<lambda>acc x. acc + f x) a xs = a + sum_list (map f xs)"
  for a :: "'a::monoid_add"
  by (induction xs arbitrary: a) (simp_all add: add.assoc)

lemma calculatedTotal_sum:
  "calculatedTotal its = (\<Sum>i\<leftarrow>its. req_price i * of_int (req_quantity i))"
  by (simp add: calculatedTotal_def foldl_add_sum_list)

text \<open>
  The validating handler persists the sum of price times quantity over the items of the
  request as \<open>totalAmount\<close>, whatever totals the client sent.
\<close>

lemma place_order_recomputes_total:
  assumes "place_order fault now u req db = Inr (ord, db')"
  shows "totalAmount ord = Some (\<Sum>i\<leftarrow>req_items req. req_price i * of_int (req_quantity i))"
    and "orders db' = orders db @ [ord]"
  using assms by (auto simp: place_order_def Let_def calculatedTotal_sum split: if_splits)

text \<open>The handler updates the ledger with \<open>markUsed\<close> for the codes of the request.\<close>

lemma markUsed_no_codes: "markUsed [] userId cs = cs"
  by (induction cs) (simp_all add: markUsed_def)

lemma place_order_marks_used:
  assumes "place_order fault now u req db = Inr (ord, db')"
  shows "coupons db' = (case req_couponCodes req of
                          None \<Rightarrow> coupons db
                        | Some cds \<Rightarrow> markUsed cds (token_id u) (coupons db))"
  using assms
  by (auto simp: place_order_def Let_def markUsed_no_codes split: if_splits option.splits)

text \<open>
  A second order with the same codes leaves the ledger as the first one left it, and
  after an order the user is in \<open>usedBy\<close> of every coupon whose stored code is, letter
  for letter, one of the codes of the request.
\<close>

lemma place_order_ledger_idempotent:
  assumes "place_order fault now u req db = Inr (ord, db')"
    and "place_order fault' now' u req db' = Inr (ord', db'')"
  shows "coupons db'' = coupons db'"
  using place_order_marks_used [OF assms(1)] place_order_marks_used [OF assms(2)]
  by (simp add: markUsed_twice split: option.splits)

lemma place_order_ledger_member:
  assumes "place_order fault now u req db = Inr (ord, db')"
    and "req_couponCodes req = Some cds" and "c \<in> set (coupons db')" and "code c \<in> set cds"
  shows "hasUsed c (token_id u)"
  using place_order_marks_used [OF assms(1)] assms(2-) markUsed_hasUsed by auto

text \<open>
  C9. The order handler matches the codes of the request with the stored codes as they
  are, while the validation handler, like every other coupon handler, upper-cases the
  code before it looks the coupon up. An order of bob with the coupon codes
  \<open>['save20']\<close> marks nothing: \<open>usedBy\<close> of every coupon is as before, bob is not in
  \<open>usedBy\<close> of SAVE20, and his next validation of \<open>save20\<close> is answered valid. The same
  order with \<open>['SAVE20']\<close> puts bob into \<open>usedBy\<close> of SAVE20 and the validation is
  answered with the already-redeemed rejection.
\<close>

theorem lower_case_code_is_not_marked:
  "(case place_order False 1000 ex_bob (ex_request\<lparr>req_couponCodes := Some [''save20'']\<rparr>) ex_db of
      Inl e \<Rightarrow> None
    | Inr (ord, db') \<Rightarrow>
        Some (map usedBy (coupons db'), map (\<lambda>c. hasUsed c (token_id ex_bob)) (coupons db'),
              validate_coupon False 2000 db' ex_bob (Some ''save20'') 400))
     = Some (map usedBy (coupons ex_db), [False, False, False, False, False, False],
             Valid (to_json ex_save))
   \<and> (case place_order False 1000 ex_bob (ex_request\<lparr>req_couponCodes := Some [''SAVE20'']\<rparr>) ex_db of
      Inl e \<Rightarrow> None
    | Inr (ord, db') \<Rightarrow>
        Some (map usedBy (coupons db'), map (\<lambda>c. hasUsed c (token_id ex_bob)) (coupons db'),
              validate_coupon False 2000 db' ex_bob (Some ''save20'') 400))
     = Some ([[], [], [''u3'', ''u2''], [], [], []], [False, False, True, False, False, False],
             Invalid AlreadyRedeemed)"
proof -
  have q: "\<not> list_ex (\<lambda>i. req_quantity i < 1) (req_items ex_request)"
    by (simp add: ex_request_def)
  have up: "toUpperCase ''save20'' = ''SAVE20''"
    by (simp add: js_string_simps)
  have lower: "markUsed [''save20''] ''u2'' (coupons ex_db) = coupons ex_db"
    by (simp add: markUsed_def shop_simps)
  have upper: "markUsed [''SAVE20''] ''u2'' (coupons ex_db)
      = [ex_gift, ex_welcome, ex_save\<lparr>usedBy := [''u3'', ''u2'']\<rparr>, ex_tier ''NEPAL100'' 100 8000,
         ex_tier ''ABOVE2500'' 50 2500, ex_tier ''ABOVE2000'' 30 2000]"
    by (simp add: markUsed_def addToSet_def shop_simps)
  show ?thesis
    by (simp add: place_order_def q Let_def ex_bob_def [THEN arg_cong, of token_id] lower upper)
       (simp add: ex_request_def validate_simps up shop_simps)
qed

lemma place_order_ignores_client_totals:
  "place_order fault now u (req\<lparr>req_total := t, req_finalTotal := f\<rparr>) db
     = place_order fault now u req db"
  by (simp add: place_order_def)

lemma place_order_succeeds:
  "\<not> fault \<Longrightarrow> \<forall>i \<in> set (req_items req). 1 \<le> req_quantity i \<Longrightarrow>
   \<exists>ord db'. place_order fault now u req db = Inr (ord, db')"
  by (auto simp: place_order_def Let_def list_ex_iff)

text \<open>
  C1. The handler of the server without request validation persists the \<open>total\<close> of the
  request body as \<open>totalAmount\<close>: for a request with items worth 20 and a client total
  of 1 the stored order has the total 1, where the validating handler stores 20.
\<close>

theorem place_order_legacy_trusts_client_total:
  "calculatedTotal (req_items ex_request) = 20
   \<and> req_total ex_request = Some 1
   \<and> (case place_order_legacy False 1000 ex_bob ex_request ex_db of
        Inl e \<Rightarrow> None
      | Inr (ord, db') \<Rightarrow> Some (totalAmount ord, map totalAmount (orders db')))
      = Some (Some 1, [Some 20, Some 1])
   \<and> (case place_order False 1000 ex_bob ex_request ex_db of
        Inl e \<Rightarrow> None
      | Inr (ord, db') \<Rightarrow> Some (totalAmount ord, map totalAmount (orders db')))
      = Some (Some 20, [Some 20, Some 20])"
  by (simp add: place_order_legacy_def place_order_def calculatedTotal_def ex_request_def
      ex_db_def ex_order_def Let_def)

subsection \<open>Totals of the cart\<close>

text \<open>
  C8. The delivery charge of a net amount is 50 below 1000, 25 from 1000 to 3000 (both
  bounds included) and 0 above 3000.
\<close>

theorem delivery_charge_tiers:
  "(n < 1000 \<longrightarrow> deliveryCharge (Some n) = 50)
   \<and> (1000 \<le> n \<and> n \<le> 3000 \<longrightarrow> deliveryCharge (Some n) = 25)
   \<and> (3000 < n \<longrightarrow> deliveryCharge (Some n) = 0)
   \<and> deliveryCharge (Some 1000) = 25 \<and> deliveryCharge (Some 3000) = 25"
  by (simp add: deliveryCharge_def)

theorem delivery_charge_tiers_witness:
  "deliveryCharge (Some 999) = 50 \<and> deliveryCharge (Some 1000) = 25
   \<and> deliveryCharge (Some 1500) = 25
   \<and> deliveryCharge (Some 3000) = 25 \<and> deliveryCharge (Some 3001) = 0"
  using delivery_charge_tiers [of 999] delivery_charge_tiers [of 1500]
    delivery_charge_tiers [of 3001]
  by simp

lemma subtotal_sum: "subtotal c = (\<Sum>item\<leftarrow>c. price item * of_nat (quantity item))"
  by (simp add: subtotal_def foldl_add_sum_list)

lemma foldl_bulk_None:
  "foldl (\<lambda>bDisc item. case bDisc of None \<Rightarrow> None
                        | Some b \<Rightarrow> map_option (\<lambda>d. b + d) (line_bulk_discount item)) None c = None"
  by (induction c) simp_all

lemma foldl_bulk_Some:
  "map line_bulk_discount c = map Some ds \<Longrightarrow>
   foldl (\<lambda>bDisc item. case bDisc of None \<Rightarrow> None
                        | Some b \<Rightarrow> map_option (\<lambda>d. b + d) (line_bulk_discount item)) (Some a) c
     = Some (a + sum_list ds)"
proof (induction c arbitrary: a ds)
  case Nil
  then show ?case by simp
next
  case (Cons item c)
  then obtain d ds' where ds: "ds = d # ds'" "line_bulk_discount item = Some d"
      "map line_bulk_discount c = map Some ds'"
    by (cases ds) auto
  with Cons.IH [of ds' "a + d"] show ?case
    by (simp add: add.assoc)
qed

lemma sum_bulk_discount_lines:
  "map line_bulk_discount c = map Some ds \<Longrightarrow> sum_bulk_discount c = Some (sum_list ds)"
  by (simp add: sum_bulk_discount_def foldl_bulk_Some)

lemma line_bulk_discount_rule:
  assumes "bulkRule item = Some r" and "0 < qty r"
  shows "line_bulk_discount item =
     Some (of_nat (quantity item) * price item
           - (of_nat (quantity item div qty r) * bulk_price r
              + of_nat (quantity item mod qty r) * price item))"
  using assms by (simp add: line_bulk_discount_def Let_def)

lemma bundle_saving:
  fixes P B :: rat and Q N :: nat
  shows "of_nat Q * P - (of_nat (Q div N) * B + of_nat (Q mod N) * P)
           = of_nat (Q div N) * (of_nat N * P - B)"
proof -
  have "(of_nat Q :: rat) = of_nat (Q div N) * of_nat N + of_nat (Q mod N)"
    by (metis div_mult_mod_eq of_nat_add of_nat_mult)
  then show ?thesis
    by (simp add: algebra_simps)
qed

lemma toFixed2_nonneg: "0 \<le> x \<Longrightarrow> 0 \<le> toFixed2 x"
  by (simp add: toFixed2_def)

lemma floor_rat_numeral [simp]: "\<lfloor>numeral a / numeral b :: rat\<rfloor> = numeral a div numeral b"
  by (metis floor_divide_of_int_eq of_int_numeral)

lemma floor_rat_one_numeral [simp]: "\<lfloor>1 / numeral b :: rat\<rfloor> = 1 div numeral b"
  by (metis floor_divide_of_int_eq of_int_numeral of_int_1)

lemma round_half_close:
  fixes y :: rat
  shows "\<bar>of_int \<lfloor>y * 100 + 1 / 2\<rfloor> / 100 - y\<bar> \<le> 1 / 200"
proof -
  define k where "k = \<lfloor>y * 100 + 1 / 2\<rfloor>"
  have "of_int k \<le> y * 100 + 1 / 2" and "y * 100 + 1 / 2 < of_int k + 1"
    unfolding k_def by linarith+
  then have "of_int k / 100 - y \<le> 1 / 200" and "y - of_int k / 100 \<le> 1 / 200"
    by (simp_all add: field_simps)
  then show ?thesis
    unfolding k_def abs_le_iff by linarith
qed

lemma toFixed2_close: "\<bar>toFixed2 x - x\<bar> \<le> 1 / 200"
proof (cases "x < 0")
  case True
  have "\<bar>toFixed2 x - x\<bar> = \<bar>of_int \<lfloor>(- x) * 100 + 1 / 2\<rfloor> / 100 - (- x)\<bar>"
    using True by (simp add: toFixed2_def abs_minus_commute add.commute)
  then show ?thesis
    using round_half_close [of "- x"] by simp
next
  case False
  then show ?thesis
    using round_half_close [of x] by (simp add: toFixed2_def)
qed

lemma toFixed2_hundredths: "\<exists>k::int. toFixed2 x = of_int k / 100"
  by (cases "x < 0") (auto simp: toFixed2_def intro: exI [of _ "- \<lfloor>- x * 100 + 1 / 2\<rfloor>"])

text \<open>
  C4 as stated fails: a line of 6 units at 10 with the bulk rule 6 for 100 has the bulk
  discount -40, where the claim gives max(0, 60 - 100) = 0.
\<close>

theorem bulk_discount_negative:
  "price (ex_line 10) = 10 \<and> quantity (ex_line 10) = 6
   \<and> bulkRule (ex_line 10) = Some \<lparr>qty = 6, bulk_price = 100\<rparr>
   \<and> line_bulk_discount (ex_line 10) = Some (- 40)
   \<and> bulkDiscount [ex_line 10] = Some (- 40)
   \<and> toFixed2 (max 0 (6 * 10 - (of_nat (6 div 6) * 100 + of_nat (6 mod 6) * 10))) = 0"
  by (simp add: ex_line_def line_bulk_discount_def bulkDiscount_def sum_bulk_discount_def
      toFixed2_def Let_def)

text \<open>
  C4, amended. A line without a bulk rule has the bulk discount 0. A line with the rule
  N for B (N positive) has the discount Q P - ((Q div N) B + (Q mod N) P), with no lower
  bound of 0: it is not negative when the bundle is no dearer than N single units
  (B at most N P), and negative when the bundle is dearer and the line holds at least
  one bundle. The bulk discount of the cart is the sum of those of its lines,
  rounded to a multiple of 1/100 at a distance of at most 1/200, and the rounding keeps a
  sum that is not negative so.
\<close>

theorem bulk_discount_formula:
  "(bulkRule item = None \<longrightarrow> line_bulk_discount item = Some 0)
   \<and> (\<forall>r. bulkRule item = Some r \<and> 0 < qty r \<longrightarrow>
         line_bulk_discount item =
           Some (of_nat (quantity item) * price item
                 - (of_nat (quantity item div qty r) * bulk_price r
                    + of_nat (quantity item mod qty r) * price item))
         \<and> (bulk_price r \<le> of_nat (qty r) * price item \<longrightarrow>
              (\<exists>d. line_bulk_discount item = Some d \<and> 0 \<le> d))
         \<and> (of_nat (qty r) * price item < bulk_price r \<and> qty r \<le> quantity item \<longrightarrow>
              (\<exists>d. line_bulk_discount item = Some d \<and> d < 0)))
   \<and> (\<forall>ds. map line_bulk_discount c = map Some ds \<longrightarrow>
         bulkDiscount c = Some (toFixed2 (sum_list ds))
         \<and> \<bar>toFixed2 (sum_list ds) - sum_list ds\<bar> \<le> 1 / 200
         \<and> (\<exists>k::int. toFixed2 (sum_list ds) = of_int k / 100)
         \<and> (0 \<le> sum_list ds \<longrightarrow> 0 \<le> toFixed2 (sum_list ds)))"
proof (intro conjI allI impI)
  assume "bulkRule item = None"
  then show "line_bulk_discount item = Some 0"
    by (simp add: line_bulk_discount_def)
next
  fix r
  assume r: "bulkRule item = Some r \<and> 0 < qty r"
  then show "line_bulk_discount item =
           Some (of_nat (quantity item) * price item
                 - (of_nat (quantity item div qty r) * bulk_price r
                    + of_nat (quantity item mod qty r) * price item))"
    by (simp add: line_bulk_discount_rule)
  assume "bulk_price r \<le> of_nat (qty r) * price item"
  then have "0 \<le> of_nat (quantity item div qty r) * (of_nat (qty r) * price item - bulk_price r)"
    by simp
  with r show "\<exists>d. line_bulk_discount item = Some d \<and> 0 \<le> d"
    by (simp add: line_bulk_discount_rule bundle_saving)
next
  fix r
  assume r: "bulkRule item = Some r \<and> 0 < qty r"
  assume d: "of_nat (qty r) * price item < bulk_price r \<and> qty r \<le> quantity item"
  with r have "0 < quantity item div qty r"
    by (simp add: div_greater_zero_iff)
  then have "(0::rat) < of_nat (quantity item div qty r)"
    by simp
  moreover from d have "of_nat (qty r) * price item - bulk_price r < 0"
    by simp
  ultimately have "of_nat (quantity item div qty r) * (of_nat (qty r) * price item - bulk_price r) < 0"
    by (rule mult_pos_neg)
  with r show "\<exists>d. line_bulk_discount item = Some d \<and> d < 0"
    by (simp add: line_bulk_discount_rule bundle_saving)
next
  fix ds
  assume "map line_bulk_discount c = map Some ds"
  then show "bulkDiscount c = Some (toFixed2 (sum_list ds))"
    by (simp add: bulkDiscount_def sum_bulk_discount_lines)
  show "\<bar>toFixed2 (sum_list ds) - sum_list ds\<bar> \<le> 1 / 200"
    by (rule toFixed2_close)
  show "\<exists>k::int. toFixed2 (sum_list ds) = of_int k / 100"
    by (rule toFixed2_hundredths)
  assume "0 \<le> sum_list ds"
  then show "0 \<le> toFixed2 (sum_list ds)"
    by (rule toFixed2_nonneg)
qed

theorem bulk_discount_formula_witness:
  "line_bulk_discount (ex_line 20) = Some 20 \<and> bulkDiscount [ex_line 20] = Some 20
   \<and> line_bulk_discount ex_item = Some 0"
proof -
  have r: "bulkRule (ex_line 20) = Some \<lparr>qty = 6, bulk_price = 100\<rparr> \<and> 0 < qty \<lparr>qty = 6, bulk_price = 100\<rparr>"
    by (simp add: ex_line_def)
  have n: "bulkRule ex_item = None"
    by (simp add: ex_item_def)
  from bulk_discount_formula [of "ex_line 20" "[ex_line 20]"] r
  have l: "line_bulk_discount (ex_line 20) = Some 20"
    by (simp add: ex_line_def)
  then have "map line_bulk_discount [ex_line 20] = map Some [20]"
    by simp
  with bulk_discount_formula [of "ex_line 20" "[ex_line 20]"]
  have "bulkDiscount [ex_line 20] = Some (toFixed2 (sum_list [20]))"
    by blast
  moreover have "toFixed2 (sum_list [20]) = 20"
    by (simp add: toFixed2_def)
  moreover from bulk_discount_formula [of ex_item "[]"] n
  have "line_bulk_discount ex_item = Some 0"
    by simp
  ultimately show ?thesis
    using l by simp
qed

subsection \<open>The automatic pass over the tiers\<close>

lemma targetTierCoupon_cases:
  "targetTierCoupon sub =
     (if 8000 \<le> sub then Some \<lparr>tier_code = ''NEPAL100'', threshold = 8000, tier_name = ''Nepal Special''\<rparr>
      else if 2500 \<le> sub then Some \<lparr>tier_code = ''ABOVE2500'', threshold = 2500, tier_name = ''Bulk Discount''\<rparr>
      else if 2000 \<le> sub then Some \<lparr>tier_code = ''ABOVE2000'', threshold = 2000, tier_name = ''Bulk Discount''\<rparr>
      else None)"
  by (simp add: targetTierCoupon_def TIERED_COUPONS_def)

lemma targetTierCoupon_highest:
  "targetTierCoupon sub = Some t \<longleftrightarrow>
     t \<in> set TIERED_COUPONS \<and> threshold t \<le> sub
     \<and> (\<forall>t' \<in> set TIERED_COUPONS. threshold t' \<le> sub \<longrightarrow> threshold t' \<le> threshold t)"
  by (auto simp: targetTierCoupon_cases TIERED_COUPONS_def)

lemma targetTierCoupon_none:
  "targetTierCoupon sub = None \<longleftrightarrow> (\<forall>t' \<in> set TIERED_COUPONS. sub < threshold t')"
  by (auto simp: targetTierCoupon_cases TIERED_COUPONS_def)

lemma activeTierCoupon_None:
  "activeTierCoupon acs = None \<longleftrightarrow> (\<forall>c \<in> set acs. \<not> is_tier_code (ac_code c))"
  by (auto simp: activeTierCoupon_def find_None_iff)

lemma tier_step_target:
  assumes "targetTierCoupon (subtotal (cart snap)) = Some t"
  shows "appliedCoupons (tier_step validate snap st) =
     (if map_option ac_code (activeTierCoupon (appliedCoupons snap)) = Some (tier_code t)
      then appliedCoupons st
      else case validate (tier_code t) (subtotal (cart snap)) of
             Valid cj \<Rightarrow> filter (\<lambda>c. \<not> is_tier_code (ac_code c)) (appliedCoupons st) @ [to_applied cj]
           | Invalid r \<Rightarrow> appliedCoupons st
           | ServerError \<Rightarrow> appliedCoupons st)"
  using assms by (auto simp: tier_step_def split: validate_result.splits)

lemma tier_step_no_target:
  assumes "targetTierCoupon (subtotal (cart snap)) = None"
  shows "appliedCoupons (tier_step validate snap st) =
     (if \<exists>c \<in> set (appliedCoupons snap). is_tier_code (ac_code c)
      then filter (\<lambda>c. \<not> is_tier_code (ac_code c)) (appliedCoupons st)
      else appliedCoupons st)"
  using assms by (simp add: tier_step_def activeTierCoupon_None)

lemma first_order_step_answers:
  assumes "\<forall>cd amount. validate cd amount \<noteq> ServerError"
  shows "first_order_step validate snap st \<noteq> None"
  using assms
  by (auto simp: first_order_step_def split: option.splits validate_result.splits)

lemma first_order_step_returning:
  "hasPlacedOrder snap \<Longrightarrow> first_order_step validate snap st = Some st"
  by (simp add: first_order_step_def)

text \<open>
  The handler of the Apply button is the request of \<open>handleApplyCoupon\<close> followed at
  once by its answer.
\<close>

lemma handleApplyCoupon_response:
  "handleApplyCoupon validate codeOverride st =
     (let codeToValidate = (case truthy codeOverride of Some c \<Rightarrow> c | None \<Rightarrow> couponCode st) in
      if codeToValidate = [] then st
      else if list_ex (\<lambda>c. ac_code c = codeToValidate) (appliedCoupons st)
        then st\<lparr>couponError := Some (AlreadyApplied codeToValidate)\<rparr>
      else apply_response st (validate codeToValidate (subtotal (cart st))) st)"
  by (simp add: handleApplyCoupon_def apply_response_def Let_def split: validate_result.splits)

text \<open>
  C3 as stated fails: for a cart with the subtotal 8100 and a bulk discount of 200 the net
  amount is 7900, below the threshold 8000, and the pass targets and applies NEPAL100.
\<close>

theorem tier_target_ignores_bulk_discount:
  "subtotal ex_bulk_cart = 8100 \<and> bulkDiscount ex_bulk_cart = Some 200
   \<and> netAmount ex_bulk_cart = Some 7900
   \<and> map_option tier_code (targetTierCoupon (subtotal ex_bulk_cart)) = Some ''NEPAL100''
   \<and> map_option threshold (targetTierCoupon (subtotal ex_bulk_cart)) = Some 8000
   \<and> map ac_code (appliedCoupons (auto_apply_effect ex_validate (ex_page\<lparr>cart := ex_bulk_cart\<rparr>)))
       = [''NEPAL100'']"
proof -
  have s: "subtotal ex_bulk_cart = 8100"
    by (simp add: subtotal_def ex_bulk_cart_def)
  have b: "bulkDiscount ex_bulk_cart = Some 200"
    by (simp add: bulkDiscount_def sum_bulk_discount_def line_bulk_discount_def ex_bulk_cart_def
        toFixed2_def Let_def)
  have n: "netAmount ex_bulk_cart = Some 7900"
    by (simp add: netAmount_def b s)
  have t: "targetTierCoupon 8100 = Some \<lparr>tier_code = ''NEPAL100'', threshold = 8000, tier_name = ''Nepal Special''\<rparr>"
    by (simp add: targetTierCoupon_cases)
  have v: "ex_validate ''NEPAL100'' 8100 = Valid (to_json (ex_tier ''NEPAL100'' 100 8000))"
    by (simp add: ex_validate_def validate_simps shop_simps js_string_simps)
  have "appliedCoupons (auto_apply_effect ex_validate (ex_page\<lparr>cart := ex_bulk_cart\<rparr>))
      = [to_applied (to_json (ex_tier ''NEPAL100'' 100 8000))]"
    by (simp add: auto_apply_effect_def checkAutoApply_def first_order_step_def tier_step_def
        activeTierCoupon_def ex_page_def s t v)
       (simp add: ex_bulk_cart_def)
  then show ?thesis
    using s b n t by (simp add: to_applied_def to_json_def ex_tier_def)
qed

text \<open>
  C3, amended. The pass selects the tier by the subtotal of the cart of its render (the
  sum of price times quantity before the bulk discount), not by the net amount: its
  target is the tier of the fixed list with the highest threshold that is at most that
  subtotal. With such a target the update of the pass, made on whatever the state is at
  that time, is decided by the render and the server: nothing changes when the tiered
  coupon applied in the render is the target or the server does not accept the target
  for that subtotal; otherwise every tiered coupon is removed and the accepted coupon
  is appended. When the subtotal is below every threshold and a tiered coupon is applied
  in the render, the update removes every tiered coupon. The effect runs these updates
  after the first-order step whenever the cart is not empty and that step does not throw.
\<close>

theorem tier_target_by_subtotal:
  "(targetTierCoupon (subtotal (cart snap)) = Some t \<longleftrightarrow>
      t \<in> set TIERED_COUPONS \<and> threshold t \<le> subtotal (cart snap)
      \<and> (\<forall>t' \<in> set TIERED_COUPONS.
            threshold t' \<le> subtotal (cart snap) \<longrightarrow> threshold t' \<le> threshold t))
   \<and> (t \<in> set TIERED_COUPONS \<and> threshold t \<le> subtotal (cart snap)
       \<and> (\<forall>t' \<in> set TIERED_COUPONS.
             threshold t' \<le> subtotal (cart snap) \<longrightarrow> threshold t' \<le> threshold t) \<longrightarrow>
       appliedCoupons (tier_step validate snap st) =
         (if map_option ac_code (activeTierCoupon (appliedCoupons snap)) = Some (tier_code t)
          then appliedCoupons st
          else case validate (tier_code t) (subtotal (cart snap)) of
                 Valid cj \<Rightarrow>
                   filter (\<lambda>c. \<not> is_tier_code (ac_code c)) (appliedCoupons st) @ [to_applied cj]
               | Invalid r \<Rightarrow> appliedCoupons st
               | ServerError \<Rightarrow> appliedCoupons st))
   \<and> ((\<forall>t' \<in> set TIERED_COUPONS. subtotal (cart snap) < threshold t') \<longrightarrow>
       appliedCoupons (tier_step validate snap st) =
         (if \<exists>c \<in> set (appliedCoupons snap). is_tier_code (ac_code c)
          then filter (\<lambda>c. \<not> is_tier_code (ac_code c)) (appliedCoupons st)
          else appliedCoupons st))
   \<and> (0 < length (cart snap) \<and> first_order_step validate snap snap = Some st2 \<longrightarrow>
       auto_apply_effect validate snap = tier_step validate snap st2)"
proof (intro conjI impI)
  show "targetTierCoupon (subtotal (cart snap)) = Some t \<longleftrightarrow>
      t \<in> set TIERED_COUPONS \<and> threshold t \<le> subtotal (cart snap)
      \<and> (\<forall>t' \<in> set TIERED_COUPONS.
            threshold t' \<le> subtotal (cart snap) \<longrightarrow> threshold t' \<le> threshold t)"
    by (rule targetTierCoupon_highest)
next
  assume "t \<in> set TIERED_COUPONS \<and> threshold t \<le> subtotal (cart snap)
       \<and> (\<forall>t' \<in> set TIERED_COUPONS.
             threshold t' \<le> subtotal (cart snap) \<longrightarrow> threshold t' \<le> threshold t)"
  then have "targetTierCoupon (subtotal (cart snap)) = Some t"
    by (simp add: targetTierCoupon_highest)
  then show "appliedCoupons (tier_step validate snap st) =
         (if map_option ac_code (activeTierCoupon (appliedCoupons snap)) = Some (tier_code t)
          then appliedCoupons st
          else case validate (tier_code t) (subtotal (cart snap)) of
                 Valid cj \<Rightarrow>
                   filter (\<lambda>c. \<not> is_tier_code (ac_code c)) (appliedCoupons st) @ [to_applied cj]
               | Invalid r \<Rightarrow> appliedCoupons st
               | ServerError \<Rightarrow> appliedCoupons st)"
    by (rule tier_step_target)
next
  assume "\<forall>t' \<in> set TIERED_COUPONS. subtotal (cart snap) < threshold t'"
  then have "targetTierCoupon (subtotal (cart snap)) = None"
    by (simp add: targetTierCoupon_none)
  then show "appliedCoupons (tier_step validate snap st) =
         (if \<exists>c \<in> set (appliedCoupons snap). is_tier_code (ac_code c)
          then filter (\<lambda>c. \<not> is_tier_code (ac_code c)) (appliedCoupons st)
          else appliedCoupons st)"
    by (rule tier_step_no_target)
next
  assume "0 < length (cart snap) \<and> first_order_step validate snap snap = Some st2"
  then show "auto_apply_effect validate snap = tier_step validate snap st2"
    by (simp add: auto_apply_effect_def checkAutoApply_def)
qed

lemma validate_answers: "validate_coupon sq now db u (Some cd) amount \<noteq> ServerError"
  by (simp add: validate_coupon_def validate_coupon_with_def Let_def split: option.splits)

theorem tier_target_by_subtotal_witness:
  "subtotal (cart (ex_page\<lparr>cart := ex_bulk_cart\<rparr>)) = 8100
   \<and> netAmount (cart (ex_page\<lparr>cart := ex_bulk_cart\<rparr>)) = Some 7900
   \<and> map ac_code (appliedCoupons ex_small_page) = [''ABOVE2000'']
   \<and> map ac_code (appliedCoupons (tier_step ex_validate (ex_page\<lparr>cart := ex_bulk_cart\<rparr>) ex_small_page))
       = [''NEPAL100'']
   \<and> subtotal (cart ex_small_page) = 120
   \<and> appliedCoupons (tier_step ex_validate ex_small_page ex_small_page) = []
   \<and> appliedCoupons (auto_apply_effect ex_validate ex_small_page) = []"
proof -
  let ?snap = "ex_page\<lparr>cart := ex_bulk_cart\<rparr>"
  let ?nepal = "\<lparr>tier_code = ''NEPAL100'', threshold = 8000, tier_name = ''Nepal Special''\<rparr>"
  have s: "subtotal (cart ?snap) = 8100" "subtotal ex_bulk_cart = 8100"
    by (simp_all add: subtotal_def ex_bulk_cart_def)
  have n: "netAmount (cart ?snap) = Some 7900"
    by (simp add: netAmount_def bulkDiscount_def sum_bulk_discount_def line_bulk_discount_def
        subtotal_def ex_bulk_cart_def toFixed2_def Let_def)
  have high: "?nepal \<in> set TIERED_COUPONS \<and> threshold ?nepal \<le> subtotal (cart ?snap)
       \<and> (\<forall>t' \<in> set TIERED_COUPONS.
             threshold t' \<le> subtotal (cart ?snap) \<longrightarrow> threshold t' \<le> threshold ?nepal)"
    by (simp add: s TIERED_COUPONS_def)
  have v: "ex_validate (tier_code ?nepal) (subtotal (cart ?snap))
      = Valid (to_json (ex_tier ''NEPAL100'' 100 8000))"
    by (simp add: s ex_validate_def validate_simps shop_simps js_string_simps)
  have a0: "activeTierCoupon (appliedCoupons ex_page) = None"
    by (simp add: activeTierCoupon_def ex_page_def)
  have small: "map ac_code (appliedCoupons ex_small_page) = [''ABOVE2000'']"
      "filter (\<lambda>c. \<not> is_tier_code (ac_code c)) (appliedCoupons ex_small_page) = []"
      "\<exists>c \<in> set (appliedCoupons ex_small_page). is_tier_code (ac_code c)"
      "subtotal (cart ex_small_page) = 120"
    by (simp_all add: ex_small_page_def ex_page_def ex_line_def subtotal_def is_tier_code_def
        TIERED_COUPONS_def)
  have low: "\<forall>t' \<in> set TIERED_COUPONS. subtotal (cart ex_small_page) < threshold t'"
    by (simp add: small TIERED_COUPONS_def)
  have f: "0 < length (cart ex_small_page)
      \<and> first_order_step ex_validate ex_small_page ex_small_page = Some ex_small_page"
    by (simp add: first_order_step_def ex_small_page_def ex_page_def)
  note replace = tier_target_by_subtotal [of ?snap ?nepal ex_validate ex_small_page,
      THEN conjunct2, THEN conjunct1, THEN mp, OF high]
  note remove = tier_target_by_subtotal [of ex_small_page ?nepal ex_validate ex_small_page,
      THEN conjunct2, THEN conjunct2, THEN conjunct1, THEN mp, OF low]
  note effect = tier_target_by_subtotal [of ex_small_page ?nepal ex_validate ex_small_page ex_small_page,
      THEN conjunct2, THEN conjunct2, THEN conjunct2, THEN mp, OF f]
  have "appliedCoupons (tier_step ex_validate ?snap ex_small_page)
      = [to_applied (to_json (ex_tier ''NEPAL100'' 100 8000))]"
    unfolding replace v by (simp add: a0 small)
  then have r1: "map ac_code (appliedCoupons (tier_step ex_validate ?snap ex_small_page)) = [''NEPAL100'']"
    by (simp add: to_applied_def to_json_def ex_tier_def)
  have r2: "appliedCoupons (tier_step ex_validate ex_small_page ex_small_page) = []"
    unfolding remove using small by simp
  have r3: "appliedCoupons (auto_apply_effect ex_validate ex_small_page) = []"
    unfolding effect by (rule r2)
  show ?thesis
    using s n small r1 r2 r3 by simp
qed

subsection \<open>The buttons of a cart line\<close>

text \<open>
  C7 as stated fails: with NEPAL100 applied to the cart of 8200, the plus button of the
  line raises the quantity from 2 to 3 and leaves the coupon applied.
\<close>

theorem plus_keeps_coupons:
  "map ac_code (appliedCoupons (auto_apply_effect ex_validate ex_page)) = [''NEPAL100'']
   \<and> map quantity (cart (auto_apply_effect ex_validate ex_page)) = [2]
   \<and> map quantity (cart (click_plus store_reducer ex_item (auto_apply_effect ex_validate ex_page))) = [3]
   \<and> map ac_code (appliedCoupons (click_plus store_reducer ex_item (auto_apply_effect ex_validate ex_page)))
       = [''NEPAL100'']"
proof -
  have s: "subtotal [ex_item] = 8200"
    by (simp add: subtotal_def ex_item_def)
  have t: "targetTierCoupon 8200 = Some \<lparr>tier_code = ''NEPAL100'', threshold = 8000, tier_name = ''Nepal Special''\<rparr>"
    by (simp add: targetTierCoupon_cases)
  have v: "ex_validate ''NEPAL100'' 8200 = Valid (to_json (ex_tier ''NEPAL100'' 100 8000))"
    by (simp add: ex_validate_def validate_simps shop_simps js_string_simps)
  have p: "auto_apply_effect ex_validate ex_page
      = ex_page\<lparr>appliedCoupons := [\<lparr>ac_code = ''NEPAL100'', discount = 100\<rparr>],
                autoApplied := True, autoApplyMessage := ''Nepal Special Applied!''\<rparr>"
    by (simp add: auto_apply_effect_def checkAutoApply_def first_order_step_def tier_step_def)
       (simp add: ex_page_def s t v to_applied_def to_json_def ex_tier_def activeTierCoupon_def)
  show ?thesis
    unfolding p
    by (simp add: click_plus_def store_reducer_def ex_page_def ex_item_def Let_def)
qed

text \<open>
  C7, amended. The minus button and the remove button of a cart line clear the whole set
  of applied coupons, whatever the reducer does to the cart; the plus button leaves the
  applied coupons as they are.
\<close>

theorem cart_buttons_coupons:
  "appliedCoupons (click_minus dispatch item st) = []
   \<and> appliedCoupons (click_remove dispatch item st) = []
   \<and> appliedCoupons (click_plus dispatch item st) = appliedCoupons st"
  by (simp add: click_minus_def click_remove_def click_plus_def handleClearAllCoupons_def Let_def)

subsection \<open>Tiered coupons in the applied set\<close>

text \<open>
  When the pass replaces the tiered coupon, it removes every tiered coupon before it adds
  the target.
\<close>

lemma tier_step_replaces:
  assumes "targetTierCoupon (subtotal (cart snap)) = Some t"
    and "map_option ac_code (activeTierCoupon (appliedCoupons snap)) \<noteq> Some (tier_code t)"
    and "validate (tier_code t) (subtotal (cart snap)) = Valid cj"
  shows "filter (\<lambda>c. is_tier_code (ac_code c)) (appliedCoupons (tier_step validate snap st))
           = filter (\<lambda>c. is_tier_code (ac_code c)) [to_applied cj]"
  using assms by (simp add: tier_step_def)

text \<open>
  C2. On the page of bob with a cart of 8200 the pass applies NEPAL100. The Apply button
  of the coupon ABOVE2000 (\<open>handleApplyCoupon\<close> with that code) then adds ABOVE2000,
  since the server accepts it and the handler only checks that the same code is not yet
  applied. The next pass finds NEPAL100 as the active and as the target tier and changes
  nothing: two coupons of the tiered family stay applied, and both are discounted.
\<close>

theorem two_tiered_coupons_applied:
  "map ac_code (appliedCoupons (auto_apply_effect ex_validate ex_page)) = [''NEPAL100'']
   \<and> map ac_code (appliedCoupons
         (handleApplyCoupon ex_validate (Some ''ABOVE2000'') (auto_apply_effect ex_validate ex_page)))
       = [''NEPAL100'', ''ABOVE2000'']
   \<and> map ac_code (appliedCoupons
         (auto_apply_effect ex_validate
           (handleApplyCoupon ex_validate (Some ''ABOVE2000'') (auto_apply_effect ex_validate ex_page))))
       = [''NEPAL100'', ''ABOVE2000'']
   \<and> is_tier_code ''NEPAL100'' \<and> is_tier_code ''ABOVE2000''
   \<and> totalCouponDiscount (appliedCoupons
         (auto_apply_effect ex_validate
           (handleApplyCoupon ex_validate (Some ''ABOVE2000'') (auto_apply_effect ex_validate ex_page))))
       = 130"
proof -
  have s: "subtotal [ex_item] = 8200"
    by (simp add: subtotal_def ex_item_def)
  have t: "targetTierCoupon 8200 = Some \<lparr>tier_code = ''NEPAL100'', threshold = 8000, tier_name = ''Nepal Special''\<rparr>"
    by (simp add: targetTierCoupon_cases)
  have v: "ex_validate ''NEPAL100'' 8200 = Valid (to_json (ex_tier ''NEPAL100'' 100 8000))"
      "ex_validate ''ABOVE2000'' 8200 = Valid (to_json (ex_tier ''ABOVE2000'' 30 2000))"
    by (simp_all add: ex_validate_def validate_simps shop_simps js_string_simps)
  have tc: "is_tier_code ''NEPAL100''" "is_tier_code ''ABOVE2000''"
    by (simp_all add: is_tier_code_def TIERED_COUPONS_def)
  define p1 where "p1 = ex_page\<lparr>appliedCoupons := [\<lparr>ac_code = ''NEPAL100'', discount = 100\<rparr>],
      autoApplied := True, autoApplyMessage := ''Nepal Special Applied!''\<rparr>"
  define p2 where "p2 = p1\<lparr>appliedCoupons := [\<lparr>ac_code = ''NEPAL100'', discount = 100\<rparr>,
      \<lparr>ac_code = ''ABOVE2000'', discount = 30\<rparr>]\<rparr>"
  have e1: "auto_apply_effect ex_validate ex_page = p1"
    unfolding p1_def
    by (simp add: auto_apply_effect_def checkAutoApply_def first_order_step_def tier_step_def)
       (simp add: ex_page_def s t v to_applied_def to_json_def ex_tier_def activeTierCoupon_def)
  have e2: "handleApplyCoupon ex_validate (Some ''ABOVE2000'') p1 = p2"
    unfolding p2_def p1_def
    by (simp add: handleApplyCoupon_def truthy_def Let_def ex_page_def s v to_applied_def
        to_json_def shop_simps is_gift_for_def)
  have e3: "auto_apply_effect ex_validate p2 = p2"
    unfolding p2_def p1_def
    by (simp add: auto_apply_effect_def checkAutoApply_def first_order_step_def tier_step_def
        activeTierCoupon_def ex_page_def s t tc)
  show ?thesis
    unfolding e1 e2 e3
    by (simp add: p1_def p2_def tc totalCouponDiscount_def)
qed

end
